theory Spec2Isabelle
  imports Complex_Main
begin

section \<open>md2pptx: shallow embedding of the compiler and layout arithmetic\<close>

text \<open>
  The definitions below follow \<^verbatim>\<open>src/md2pptx/main.py\<close>.  Python integers are
  \<^typ>\<open>int\<close>.  Python's true division \<^verbatim>\<open>/\<close> yields a double; it is modelled
  by exact division on \<^typ>\<open>rat\<close>, and \<^verbatim>\<open>int(a / b)\<close> by truncation of the exact
  quotient towards zero.  Every exception the modelled code can raise is a value of
  \<open>py_error\<close>.
\<close>

datatype py_error =
    ZeroDivisionError | IndexError | NameError | TypeError | ValueError | AttributeError
  | FileNotFoundError | SystemExit | ParserError

subsection \<open>Picture scaling\<close>

text \<open>
  \<^verbatim>\<open>scalePicture(maxPicWidth, maxPicHeight, imageWidth, imageHeight)\<close>: both
  quotients are computed before the comparison, so a zero natural dimension raises.
\<close>

definition scalePicture :: "rat \<Rightarrow> rat \<Rightarrow> rat \<Rightarrow> rat \<Rightarrow> py_error + (rat \<times> rat \<times> bool)" where
  "scalePicture maxPicWidth maxPicHeight imageWidth imageHeight =
     (if imageWidth = 0 then Inl ZeroDivisionError
      else if imageHeight = 0 then Inl ZeroDivisionError
      else
        let heightIfWidthUsed = maxPicWidth * imageHeight / imageWidth;
            widthIfHeightUsed = maxPicHeight * imageWidth / imageHeight
        in if heightIfWidthUsed > maxPicHeight
           then Inr (widthIfHeightUsed, maxPicHeight, True)
           else Inr (maxPicWidth, heightIfWidthUsed, False))"

subsection \<open>Python helpers\<close>

text \<open>\<^verbatim>\<open>int(x)\<close> on a number truncates towards zero.\<close>

definition py_int :: "rat \<Rightarrow> int" where
  "py_int q = (if q < 0 then - \<lfloor>- q\<rfloor> else \<lfloor>q\<rfloor>)"

text \<open>\<^verbatim>\<open>int(a / b)\<close> for integers \<open>a\<close> and \<open>b\<close>.\<close>

definition int_of_quotient :: "int \<Rightarrow> int \<Rightarrow> py_error + int" where
  "int_of_quotient a b =
     (if b = 0 then Inl ZeroDivisionError else Inr (py_int (of_int a / of_int b)))"

text \<open>\<^verbatim>\<open>xs[i]\<close> for a non-negative index.\<close>

definition py_nth :: "'a list \<Rightarrow> nat \<Rightarrow> py_error + 'a" where
  "py_nth xs i = (if i < length xs then Inr (xs ! i) else Inl IndexError)"

subsection \<open>Content-area split (\<^verbatim>\<open>createContentSlide\<close>)\<close>

text \<open>
  \<^verbatim>\<open>Rectangle(top, left, height, width)\<close>; the class lives in
  \<^verbatim>\<open>md2pptx.rectangle\<close> and is used through these four fields only.
\<close>

record Rectangle =
  rtop :: int
  rleft :: int
  rheight :: int
  rwidth :: int







subsection \<open>The compiled slide (\<^verbatim>\<open>SlideInfo\<close>) and its parts\<close>

text \<open>
  A bullet is the list \<^verbatim>\<open>[level, text, type]\<close>.  A card is an object of
  \<^verbatim>\<open>md2pptx.card.Card\<close>; the compiler sets its title, bullets and graphic and, from a
  media line, its graphic title, printable file name, URL and media information (source,
  width, height, poster); a new card has them empty.  A table
  row is a list of cell strings, a table a list of rows, a code block a list of lines.
\<close>

type_synonym bullet = "int \<times> string \<times> string"

record Card =
  card_title :: string
  card_bullets :: "bullet list"
  card_graphic :: string
  card_graphicTitle :: string
  card_printableFilename :: string
  card_mediaURL :: string
  card_mediaInfo :: "(string \<times> int \<times> int \<times> string option) option"

record SlideInfo =
  titleText :: string
  subtitleText :: string
  blockType :: string
  bullets :: "bullet list"
  tableRows :: "string list list list"
  cards :: "Card list"
  code :: "string list list"
  sequence :: "string list"

subsection \<open>List block heights (\<^verbatim>\<open>createListBlock\<close>)\<close>



subsection \<open>Footnote slides (\<^verbatim>\<open>createFootnoteSlides\<close>)\<close>










subsection \<open>Table-of-contents grid (\<^verbatim>\<open>createTOCSlide\<close>, chevron and circle styles)\<close>

text \<open>
  \<^verbatim>\<open>pptx.util.Inches(x)\<close> is the integer number of English Metric Units,
  \<^verbatim>\<open>int(x * 914400)\<close>.
\<close>

definition Inches :: "rat \<Rightarrow> int" where
  "Inches x = py_int (x * 914400)"


text \<open>
  The placement loop \<^verbatim>\<open>for entry in TOCEntries\<close>: every entry is drawn at the
  current \<open>(x, y)\<close>; then \<open>x\<close> advances, and when \<^verbatim>\<open>TOCEntryNumber\<close> reaches
  \<^verbatim>\<open>TOCEntriesPerRow + 1\<close> the next row starts.
\<close>

fun tocPlace ::
  "rat \<Rightarrow> int \<Rightarrow> int \<Rightarrow> int \<Rightarrow> rat \<Rightarrow> int \<Rightarrow> 'a list \<Rightarrow> rat \<Rightarrow> rat \<Rightarrow> int
   \<Rightarrow> ('a \<times> rat \<times> rat) list" where
  "tocPlace width height entryGap rowGap TOCleft TOCEntriesPerRow [] x y TOCEntryNumber = []"
| "tocPlace width height entryGap rowGap TOCleft TOCEntriesPerRow (entry # rest) x y
     TOCEntryNumber =
     (entry, x, y) #
     (let x1 = x + width + of_int entryGap;
          TOCEntryNumber1 = TOCEntryNumber + 1
      in if TOCEntryNumber1 = TOCEntriesPerRow + 1
         then tocPlace width height entryGap rowGap TOCleft TOCEntriesPerRow rest
                TOCleft (y + of_int rowGap + of_int height) 1
         else tocPlace width height entryGap rowGap TOCleft TOCEntriesPerRow rest
                x1 y TOCEntryNumber1)"

record 'a toc_layout =
  TOCEntriesPerRow :: int
  rowCount :: rat
  TOCHeight :: rat
  TOCtop :: rat
  TOCWidth :: rat
  TOCleft :: rat
  placed :: "('a \<times> rat \<times> rat) list"



subsection \<open>Strings and the media regular expressions\<close>

definition startswith :: "string \<Rightarrow> string \<Rightarrow> bool" where
  "startswith s p = (take (length p) s = p)"

definition endswith :: "string \<Rightarrow> string \<Rightarrow> bool" where
  "endswith s p = (length p \<le> length s \<and> drop (length s - length p) s = p)"

text \<open>\<^verbatim>\<open>needle in s\<close> for strings.\<close>

fun str_contains :: "string \<Rightarrow> string \<Rightarrow> bool" where
  "str_contains needle [] = (needle = [])"
| "str_contains needle (c # cs) = (startswith (c # cs) needle \<or> str_contains needle cs)"

definition is_space :: "char \<Rightarrow> bool" where
  "is_space c = (c = CHR '' '' \<or> c = CHR 0x09 \<or> c = CHR 0x0A \<or> c = CHR 0x0B
               \<or> c = CHR 0x0C \<or> c = CHR 0x0D)"

definition lstrip :: "string \<Rightarrow> string" where
  "lstrip s = dropWhile is_space s"

definition rstrip :: "string \<Rightarrow> string" where
  "rstrip s = rev (dropWhile is_space (rev s))"

definition strip :: "string \<Rightarrow> string" where
  "strip s = rstrip (lstrip s)"

definition lower_char :: "char \<Rightarrow> char" where
  "lower_char c =
     (if of_char (CHR ''A'') \<le> (of_char c :: nat) \<and> (of_char c :: nat) \<le> of_char (CHR ''Z'')
      then char_of ((of_char c :: nat) + 32) else c)"

definition lower :: "string \<Rightarrow> string" where
  "lower s = map lower_char s"

text \<open>
  The four media patterns are matched at the start of the string (\<^verbatim>\<open>re.match\<close>).
  A pattern is a chain of literals and lazy groups; each combinator takes the matcher of
  the rest of the pattern.  \<open>re_lazy\<close> is \<^verbatim>\<open>(.*?)\<close>: it tries the rest first and
  consumes one more character, never a newline, when the rest fails; \<open>re_lazy1\<close> is
  \<^verbatim>\<open>(.+?)\<close>.  The result holds the captured groups.
\<close>

fun re_lazy :: "(string \<Rightarrow> 'r option) \<Rightarrow> string \<Rightarrow> (string \<times> 'r) option" where
  "re_lazy K [] = map_option (Pair []) (K [])"
| "re_lazy K (c # cs) =
     (case K (c # cs) of
        Some r \<Rightarrow> Some ([], r)
      | None \<Rightarrow>
          if c = CHR 0x0A then None
          else map_option (\<lambda>(a, r). (c # a, r)) (re_lazy K cs))"

definition re_lazy1 :: "(string \<Rightarrow> 'r option) \<Rightarrow> string \<Rightarrow> (string \<times> 'r) option" where
  "re_lazy1 K s =
     (case s of
        [] \<Rightarrow> None
      | c # cs \<Rightarrow>
          if c = CHR 0x0A then None
          else map_option (\<lambda>(a, r). (c # a, r)) (re_lazy K cs))"

definition re_lit :: "string \<Rightarrow> (string \<Rightarrow> 'r option) \<Rightarrow> string \<Rightarrow> 'r option" where
  "re_lit p K s = (if startswith s p then K (drop (length p) s) else None)"

definition re_end :: "string \<Rightarrow> unit option" where
  "re_end rest = Some ()"

text \<open>\<^verbatim>\<open><video (.*?)></video>\<close> and \<^verbatim>\<open><audio (.*?)></audio>\<close>\<close>

definition videoRegex_match :: "string \<Rightarrow> (string \<times> unit) option" where
  "videoRegex_match s = re_lit ''<video '' (re_lazy (re_lit ''></video>'' re_end)) s"

definition audioRegex_match :: "string \<Rightarrow> (string \<times> unit) option" where
  "audioRegex_match s = re_lit ''<audio '' (re_lazy (re_lit ''></audio>'' re_end)) s"

text \<open>\<^verbatim>\<open>!\[(.*?)\]\((.+?)\)\<close>: groups title and filename.\<close>

definition graphicRegex_match :: "string \<Rightarrow> (string \<times> string \<times> unit) option" where
  "graphicRegex_match s =
     re_lit ''!['' (re_lazy (re_lit '']('' (re_lazy1 (re_lit '')'' re_end)))) s"

text \<open>\<^verbatim>\<open>\[!\[(.*?)\]\((.+?)\)\]\((.+?)\)\<close>: groups title, filename and href.\<close>

definition clickableGraphicRegex_match :: "string \<Rightarrow> (string \<times> string \<times> string \<times> unit) option" where
  "clickableGraphicRegex_match s =
     re_lit ''[!['' (re_lazy (re_lit '']('' (re_lazy1 (re_lit '')]('' (re_lazy1
       (re_lit '')'' re_end)))))) s"

subsection \<open>Media cells (\<^verbatim>\<open>handleWhateverGraphicType\<close>, \<^verbatim>\<open>parseMedia\<close>)\<close>

text \<open>
  What the media code asks of the outside world is a parameter: whether a local file can
  be opened, the outcome of retrieving a URI into a temporary file (\<open>None\<close> for the
  HTTP and socket errors the code catches), the converters' temporary file names, the
  result of \<^verbatim>\<open>getGraphicDimensions\<close> on a file (\<open>Some (-1, -1)\<close> when the file
  cannot be opened or recognised, \<open>None\<close> for the bare \<^verbatim>\<open>return\<close> of the JPEG
  scan), whether a video source can be opened or fetched, and the attributes the HTML
  parser finds in a video or audio element (\<^verbatim>\<open>AudioVideoInfo\<close>).
\<close>

record AudioVideoInfo =
  av_source :: string
  av_width :: int
  av_height :: int
  av_poster :: "string option"

record media_env =
  have_cairosvg :: bool
  have_pillow :: bool
  openable :: "string \<Rightarrow> bool"
  retrieveURI :: "string \<Rightarrow> string option"
  svgTempFile :: "string \<Rightarrow> string"
  epsTempFile :: "string \<Rightarrow> py_error + string"
  graphicDimensions :: "string \<Rightarrow> (int \<times> int) option"
  videoReachable :: "string \<Rightarrow> bool"
  parseAudioVideo :: "string \<Rightarrow> py_error + AudioVideoInfo"

text \<open>
  \<^verbatim>\<open>handleWhateverGraphicType\<close> returns the file name to draw and the printable name.
  A local SVG or EPS file is opened by the converter with no handler around it.
\<close>

definition printableURI :: "string \<Rightarrow> string" where
  "printableURI GraphicFilename =
     (if length GraphicFilename > 50
      then take 25 GraphicFilename @ ''...'' @ drop (length GraphicFilename - 25) GraphicFilename
      else GraphicFilename)"

definition convertGraphic :: "media_env \<Rightarrow> string \<Rightarrow> string \<Rightarrow> string \<Rightarrow> py_error + (string \<times> string)" where
  "convertGraphic env GraphicFilename convertibleFilename printableGraphicFilename =
     (if str_contains ''.svg'' (lower GraphicFilename) then
        (if have_cairosvg env then
           (if openable env convertibleFilename
            then Inr (svgTempFile env convertibleFilename, printableGraphicFilename)
            else Inl FileNotFoundError)
         else Inl SystemExit)
      else if str_contains ''.eps'' (lower GraphicFilename) then
        (if have_pillow env then
           (if openable env GraphicFilename then
              (case epsTempFile env GraphicFilename of
                 Inl e \<Rightarrow> Inl e
               | Inr png \<Rightarrow> Inr (png, printableGraphicFilename))
            else Inl FileNotFoundError)
         else Inr (GraphicFilename, printableGraphicFilename))
      else Inr (convertibleFilename, printableGraphicFilename))"

definition handleWhateverGraphicType :: "media_env \<Rightarrow> string \<Rightarrow> py_error + (string \<times> string)" where
  "handleWhateverGraphicType env name =
     (let GraphicFilename = strip name in
      if CHR '':'' \<in> set GraphicFilename then
        (case retrieveURI env GraphicFilename of
           None \<Rightarrow> Inr (GraphicFilename, printableURI GraphicFilename)
         | Some convertibleFilename \<Rightarrow>
             convertGraphic env GraphicFilename convertibleFilename (printableURI GraphicFilename))
      else convertGraphic env GraphicFilename GraphicFilename GraphicFilename)"

text \<open>The tuple \<^verbatim>\<open>parseMedia\<close> returns.\<close>

record parsed_media =
  graphicTitle :: string
  GraphicFilename :: string
  printableGraphicFilename :: string
  graphicHref :: string
  HTML :: string
  audioVideoInfo :: "AudioVideoInfo option"
  graphicCount :: int

definition parseAV :: "media_env \<Rightarrow> string \<Rightarrow> int \<Rightarrow> py_error + parsed_media" where
  "parseAV env cellString graphicCount0 =
     (case parseAudioVideo env cellString of
        Inl e \<Rightarrow> Inl e
      | Inr av \<Rightarrow>
         (case handleWhateverGraphicType env (av_source av) of
            Inl e \<Rightarrow> Inl e
          | Inr (f, printable) \<Rightarrow>
              Inr \<lparr>graphicTitle = [], GraphicFilename = [], printableGraphicFilename = printable,
                   graphicHref = [], HTML = [], audioVideoInfo = Some av,
                   graphicCount = graphicCount0 + 1\<rparr>))"

definition parseMedia :: "media_env \<Rightarrow> string \<Rightarrow> int \<Rightarrow> py_error + parsed_media" where
  "parseMedia env cellString graphicCount0 =
     (if videoRegex_match cellString \<noteq> None then parseAV env cellString graphicCount0
      else if audioRegex_match cellString \<noteq> None then parseAV env cellString graphicCount0
      else
        (case clickableGraphicRegex_match cellString of
           Some (title, filename, href, u) \<Rightarrow>
             (case handleWhateverGraphicType env filename of
                Inl e \<Rightarrow> Inl e
              | Inr (f, printable) \<Rightarrow>
                  Inr \<lparr>graphicTitle = title, GraphicFilename = f,
                       printableGraphicFilename = printable, graphicHref = href, HTML = [],
                       audioVideoInfo = None, graphicCount = graphicCount0 + 1\<rparr>)
         | None \<Rightarrow>
             (case graphicRegex_match cellString of
                Some (title, filename, u) \<Rightarrow>
                  (case handleWhateverGraphicType env filename of
                     Inl e \<Rightarrow> Inl e
                   | Inr (f, printable) \<Rightarrow>
                       Inr \<lparr>graphicTitle = title, GraphicFilename = f,
                            printableGraphicFilename = printable, graphicHref = [], HTML = [],
                            audioVideoInfo = None, graphicCount = graphicCount0 + 1\<rparr>)
              | None \<Rightarrow>
                  Inr \<lparr>graphicTitle = [], GraphicFilename = [], printableGraphicFilename = [],
                       graphicHref = [], HTML = cellString, audioVideoInfo = None,
                       graphicCount = graphicCount0 + 1 - 1\<rparr>)))"


subsection \<open>Graphics grid or ruled table (\<^verbatim>\<open>createTableBlock\<close>, first part)\<close>

text \<open>
  The outcome of the first part of \<^verbatim>\<open>createTableBlock\<close>.  The parsed cells are
  bound only on the path through the 1-or-2 by 1-or-2 test, the bottom ones only for two
  rows.
\<close>

record grid_parse =
  isGraphicsGrid :: bool
  gridRows :: nat
  gridColumns :: nat
  topLeftMedia :: "parsed_media option"
  topRightMedia :: "parsed_media option"
  bottomLeftMedia :: "parsed_media option"
  bottomRightMedia :: "parsed_media option"

definition parseBottomRow ::
  "media_env \<Rightarrow> string list list \<Rightarrow> grid_parse \<Rightarrow> py_error + grid_parse" where
  "parseBottomRow env tblRows g =
     (case py_nth (tblRows ! 1) 0 of
        Inl e \<Rightarrow> Inl e
      | Inr bottomLeftCellString \<Rightarrow>
         (case parseMedia env bottomLeftCellString 0 of
            Inl e \<Rightarrow> Inl e
          | Inr blm \<Rightarrow>
             (let bottomRightCellString =
                    (if gridColumns g = 2
                     then (if length (tblRows ! 1) = 1 then [] else tblRows ! 1 ! 1)
                     else [])
              in case parseMedia env bottomRightCellString (graphicCount blm) of
                   Inl e \<Rightarrow> Inl e
                 | Inr brm \<Rightarrow>
                     Inr (g\<lparr>bottomLeftMedia := Some blm, bottomRightMedia := Some brm,
                            isGraphicsGrid :=
                              (if graphicCount brm = 0 then False else isGraphicsGrid g)\<rparr>))))"

definition classifyTable :: "media_env \<Rightarrow> string list list \<Rightarrow> py_error + grid_parse" where
  "classifyTable env tblRows =
     (case py_nth tblRows 0 of
        Inl e \<Rightarrow> Inl e
      | Inr row0 \<Rightarrow>
         (if length tblRows \<le> 2 \<and> length row0 \<le> 2 then
            (let rows = length tblRows;
                 columns = (if rows = 1 then length row0
                            else max (length row0) (length (tblRows ! 1)))
             in case py_nth row0 0 of
                  Inl e \<Rightarrow> Inl e
                | Inr topLeftCellString \<Rightarrow>
                   (case parseMedia env topLeftCellString 0 of
                      Inl e \<Rightarrow> Inl e
                    | Inr tlm \<Rightarrow>
                       (let topRightCellString = (if length row0 = 2 then row0 ! 1 else [])
                        in case parseMedia env topRightCellString (graphicCount tlm) of
                             Inl e \<Rightarrow> Inl e
                           | Inr trm \<Rightarrow>
                              (let g = \<lparr>isGraphicsGrid = (graphicCount trm \<noteq> 0),
                                        gridRows = rows, gridColumns = columns,
                                        topLeftMedia = Some tlm, topRightMedia = Some trm,
                                        bottomLeftMedia = None, bottomRightMedia = None\<rparr>
                               in if rows = 2 then parseBottomRow env tblRows g
                                  else Inr g))))
          else Inr \<lparr>isGraphicsGrid = False, gridRows = 0, gridColumns = 0,
                    topLeftMedia = None, topRightMedia = None,
                    bottomLeftMedia = None, bottomRightMedia = None\<rparr>))"


subsection \<open>Ruled table (\<^verbatim>\<open>createTableBlock\<close>, normal-table branch)\<close>

datatype PP_ALIGN = LEFT | CENTER | RIGHT

text \<open>The alignment letter of one cell of the dash row.\<close>

definition cellAlignmentLetter :: "string \<Rightarrow> string" where
  "cellAlignmentLetter cell =
     (if startswith cell '':-'' then
        (if endswith cell ''-:'' then ''c'' else ''l'')
      else if endswith cell ''-:'' then ''r''
      else ''l'')"

text \<open>\<^verbatim>\<open>cell.count("-")\<close>\<close>

definition countDashes :: "string \<Rightarrow> int" where
  "countDashes cell = int (length (filter (\<lambda>c. c = CHR ''-'') cell))"

text \<open>
  \<^verbatim>\<open>columns\<close> is the longest row, the dash row included; it is computed before
  that row is deleted.
\<close>

definition maxColumns :: "string list list \<Rightarrow> nat" where
  "maxColumns tblRows = foldl (\<lambda>columns row. max columns (length row)) 0 tblRows"

text \<open>The alignment set on the paragraph of a cell in column \<open>columnNumber\<close>.\<close>

definition cellAlignment :: "string list \<Rightarrow> nat \<Rightarrow> PP_ALIGN" where
  "cellAlignment alignmentLetters columnNumber =
     (if columnNumber \<ge> length alignmentLetters then LEFT
      else if alignmentLetters ! columnNumber = ''r'' then RIGHT
      else if alignmentLetters ! columnNumber = ''c'' then CENTER
      else LEFT)"

text \<open>
  The table that is drawn: whether its first row is a heading, the alignment letters and
  the relative widths, the width set on each column, and the rows of cells with the
  alignment of each, every row filled up to \<^verbatim>\<open>columns\<close> cells.
\<close>

record ruled_table =
  haveTableHeading :: bool
  columnCount :: nat
  alignments :: "string list"
  widths :: "int list"
  widths_total :: int
  columnWidths :: "int list"
  renderedRows :: "(PP_ALIGN \<times> string) list list"

fun setColumnWidths :: "int \<Rightarrow> int list \<Rightarrow> int \<Rightarrow> nat list \<Rightarrow> py_error + int list" where
  "setColumnWidths shapeWidth ws wtotal [] = Inr []"
| "setColumnWidths shapeWidth ws wtotal (colno # rest) =
     (case py_nth ws colno of
        Inl e \<Rightarrow> Inl e
      | Inr w \<Rightarrow>
         (case int_of_quotient (shapeWidth * w) wtotal of
            Inl e \<Rightarrow> Inl e
          | Inr cw \<Rightarrow>
             (case setColumnWidths shapeWidth ws wtotal rest of
                Inl e \<Rightarrow> Inl e
              | Inr cws \<Rightarrow> Inr (cw # cws))))"

definition fillRow :: "nat \<Rightarrow> string list \<Rightarrow> string list" where
  "fillRow columns row = row @ replicate (columns - length row) []"

definition renderRow :: "string list \<Rightarrow> nat \<Rightarrow> string list \<Rightarrow> (PP_ALIGN \<times> string) list" where
  "renderRow alignmentLetters columns row =
     map (\<lambda>(columnNumber, cell). (cellAlignment alignmentLetters columnNumber, cell))
       (zip [0..<length (fillRow columns row)] (fillRow columns row))"

definition ruledTable :: "int \<Rightarrow> string list list \<Rightarrow> py_error + ruled_table" where
  "ruledTable shapeWidth tblRows =
     (let columns = maxColumns tblRows in
      case (if length tblRows > 1
            then (case py_nth (tblRows ! 1) 0 of
                    Inl e \<Rightarrow> Inl e
                  | Inr firstCellSecondRow \<Rightarrow>
                      Inr (startswith firstCellSecondRow ''-''
                           \<or> startswith firstCellSecondRow '':-''))
            else Inr False) of
        Inl e \<Rightarrow> Inl e
      | Inr heading \<Rightarrow>
         (let als = (if heading
                     then map cellAlignmentLetter (tblRows ! 1)
                          @ replicate (columns - length (tblRows ! 1)) ''l''
                     else replicate columns ''l'');
              ws = (if heading
                    then map countDashes (tblRows ! 1)
                         @ replicate (columns - length (tblRows ! 1)) 1
                    else replicate columns 1);
              wtotal = (if heading then sum_list ws else int columns);
              dataRows = (if heading then take 1 tblRows @ drop 2 tblRows else tblRows)
          in case setColumnWidths shapeWidth ws wtotal [0..<columns] of
               Inl e \<Rightarrow> Inl e
             | Inr cws \<Rightarrow>
                 Inr \<lparr>haveTableHeading = heading, columnCount = columns, alignments = als,
                      widths = ws, widths_total = wtotal, columnWidths = cws,
                      renderedRows = map (renderRow als columns) dataRows\<rparr>))"


subsection \<open>Line patterns of the compiler pass\<close>

















subsection \<open>The compiler pass (pass 5 of \<^verbatim>\<open>cli\<close>)\<close>


text \<open>
  The locals of the pass.  A local that the code reads before every path has assigned it
  is an option, \<open>None\<close> while unbound.  \<open>emitted\<close> holds the \<^verbatim>\<open>SlideInfo\<close> of each
  \<^verbatim>\<open>createSlide\<close> call, \<open>slideNotes\<close> the \<^verbatim>\<open>createSlideNotes\<close> calls with the
  number of slides emitted so far.
\<close>

record compile_state =
  inBlock :: bool
  inList :: bool
  inTable :: bool
  inCard :: bool
  inTitle :: bool
  inCode :: bool
  inHTMLCode :: bool
  inFencedCode :: bool
  blockType_v :: string
  slideTitle :: string
  slideSubtitle :: string
  bullets_v :: "bullet list"
  tableRows_v :: "string list list list"
  cards_v :: "Card list"
  code_v :: "string list list"
  notes_text :: string
  sequence_v :: "string list"
  slideNumber_v :: int
  href :: "string option"
  thisLevel :: "nat option"
  cardBullets :: "bullet list option"
  slideHrefs :: "(string \<times> int) list"
  tasks :: "(int \<times> string \<times> string \<times> string \<times> string) list"
  dueDate :: "string option"
  tags :: "string option"
  done_v :: "string option"
  lastTableLine :: int
  tableCaption :: "string option"
  tableCaptions :: "string list"
  indentSpaces :: int
  emitted :: "SlideInfo list"
  slideNotes :: "(nat \<times> string) list"














































text \<open>
  While a card is open the slide has a card, and \<^verbatim>\<open>cardBullets\<close> is the bullet list of
  the last one (in the code the two are the same list object).
\<close>

definition card_inv :: "compile_state \<Rightarrow> bool" where
  "card_inv st \<longleftrightarrow>
     (inCard st \<longrightarrow>
        cards_v st \<noteq> [] \<and> cardBullets st = Some (card_bullets (last (cards_v st))))"


subsection \<open>The table block as a whole (\<^verbatim>\<open>createTableBlock\<close>)\<close>

text \<open>
  \<^verbatim>\<open>getVideoInfo\<close>: width and height of a video or audio whose source can be fetched
  or opened, \<open>(-1, -1)\<close> otherwise.
\<close>

definition getVideoInfo :: "media_env \<Rightarrow> AudioVideoInfo \<Rightarrow> int \<times> int \<times> string" where
  "getVideoInfo env av =
     (if str_contains ''://'' (av_source av)
      then (if videoReachable env (av_source av) then (av_width av, av_height av, ''Web'')
            else (- 1, - 1, ''Web''))
      else (if openable env (av_source av) then (av_width av, av_height av, ''Local'')
            else (- 1, - 1, ''Local'')))"

text \<open>
  The dimensions of the media of one cell: of the picture when the cell has a file name,
  else of the video or audio, else none.  Unpacking the \<^verbatim>\<open>None\<close> that
  \<^verbatim>\<open>getGraphicDimensions\<close> returns from a failed JPEG scan raises.
\<close>

definition cellDimensions :: "media_env \<Rightarrow> parsed_media \<Rightarrow> py_error + (bool \<times> int \<times> int) option" where
  "cellDimensions env pm =
     (if GraphicFilename pm \<noteq> [] then
        (case graphicDimensions env (GraphicFilename pm) of
           None \<Rightarrow> Inl TypeError
         | Some (w, h) \<Rightarrow> Inr (Some (False, w, h)))
      else
        (case audioVideoInfo pm of
           Some av \<Rightarrow> (case getVideoInfo env av of (w, h, t) \<Rightarrow> Inr (Some (True, w, h)))
         | None \<Rightarrow> Inr None))"

text \<open>
  The cells whose media are examined, in order, each with its name in a two-row grid and
  in a one-row grid: top left; top right when there are two columns; for two rows bottom
  left, and bottom right when there are two columns.
\<close>

definition gridCells :: "grid_parse \<Rightarrow> (string \<times> string \<times> parsed_media) list" where
  "gridCells g =
     (case topLeftMedia g of Some pm \<Rightarrow> [(''top left'', ''left'', pm)] | None \<Rightarrow> [])
     @ (if gridColumns g = 2
        then (case topRightMedia g of Some pm \<Rightarrow> [(''top right'', ''right'', pm)] | None \<Rightarrow> [])
        else [])
     @ (if gridRows g = 2
        then (case bottomLeftMedia g of
                Some pm \<Rightarrow> [(''bottom left'', ''left'', pm)] | None \<Rightarrow> [])
             @ (if gridColumns g = 2
                then (case bottomRightMedia g of
                        Some pm \<Rightarrow> [(''bottom right'', ''right'', pm)] | None \<Rightarrow> [])
                else [])
        else [])"

text \<open>
  The dimension pass: the first cell whose media has width \<open>-1\<close> ends it with the
  report that is printed; otherwise it yields the dimensions of the media found.
\<close>

fun checkCells ::
  "media_env \<Rightarrow> nat \<Rightarrow> (string \<times> string \<times> parsed_media) list
   \<Rightarrow> py_error + (string + (parsed_media \<times> int \<times> int) list)" where
  "checkCells env rows [] = Inr (Inr [])"
| "checkCells env rows ((twoRowName, oneRowName, pm) # rest) =
     (case cellDimensions env pm of
        Inl e \<Rightarrow> Inl e
      | Inr None \<Rightarrow> checkCells env rows rest
      | Inr (Some (isVideo, w, h)) \<Rightarrow>
          if w = - 1 then
            Inr (Inl (''Missing '' @ (if rows = 2 then twoRowName else oneRowName)
                      @ (if isVideo then '' video file: '' else '' image file: '')
                      @ printableGraphicFilename pm))
          else
            (case checkCells env rows rest of
               Inl e \<Rightarrow> Inl e
             | Inr (Inl report) \<Rightarrow> Inr (Inl report)
             | Inr (Inr found) \<Rightarrow> Inr (Inr ((pm, w, h) # found))))"

text \<open>
  A shape added to the slide: a picture or a movie with its scaled width and height, or
  a table.  The positions of the tiles are not part of this model.
\<close>

datatype shape =
    PictureShape string rat rat
  | MovieShape string rat rat
  | TableShape ruled_table

fun drawTiles :: "rat \<Rightarrow> rat \<Rightarrow> (parsed_media \<times> int \<times> int) list \<Rightarrow> py_error + shape list" where
  "drawTiles maxPicWidth maxPicHeight [] = Inr []"
| "drawTiles maxPicWidth maxPicHeight ((pm, w, h) # rest) =
     (case scalePicture maxPicWidth maxPicHeight (of_int w) (of_int h) of
        Inl e \<Rightarrow> Inl e
      | Inr (picWidth, picHeight, usingHeightToScale) \<Rightarrow>
         (case drawTiles maxPicWidth maxPicHeight rest of
            Inl e \<Rightarrow> Inl e
          | Inr shapes \<Rightarrow>
              Inr ((if GraphicFilename pm \<noteq> []
                    then PictureShape (GraphicFilename pm) picWidth picHeight
                    else MovieShape (case audioVideoInfo pm of
                                       Some av \<Rightarrow> av_source av | None \<Rightarrow> [])
                           picWidth picHeight) # shapes)))"

text \<open>
  \<^verbatim>\<open>createTableBlock\<close>: the shapes of the slide afterwards and the report printed
  when the block is skipped.
\<close>

definition createTableBlock ::
  "media_env \<Rightarrow> Rectangle \<Rightarrow> int \<Rightarrow> int \<Rightarrow> shape list \<Rightarrow> string list list
   \<Rightarrow> py_error + (shape list \<times> string option)" where
  "createTableBlock env renderingRectangle marginBase tableMargin slideShapes tblRows =
     (case classifyTable env tblRows of
        Inl e \<Rightarrow> Inl e
      | Inr g \<Rightarrow>
         if isGraphicsGrid g then
           (case checkCells env (gridRows g) (gridCells g) of
              Inl e \<Rightarrow> Inl e
            | Inr (Inl report) \<Rightarrow> Inr (slideShapes, Some report)
            | Inr (Inr found) \<Rightarrow>
               (let maxPicHeight =
                      (if gridRows g = 2
                       then of_int (rheight renderingRectangle) / 2 + of_int (Inches (1 / 5))
                       else of_int (rheight renderingRectangle));
                    maxPicWidth =
                      (if gridColumns g = 2
                       then of_int (rwidth renderingRectangle) / 2 - of_int marginBase
                       else of_int (rwidth renderingRectangle))
                in case drawTiles maxPicWidth maxPicHeight found of
                     Inl e \<Rightarrow> Inl e
                   | Inr tiles \<Rightarrow> Inr (slideShapes @ tiles, None)))
         else
           (case ruledTable (rwidth renderingRectangle - 2 * (tableMargin - marginBase))
                   tblRows of
              Inl e \<Rightarrow> Inl e
            | Inr t \<Rightarrow> Inr (slideShapes @ [TableShape t], None)))"


section \<open>Theorems\<close>

subsection \<open>C1: picture scaling\<close>

text \<open>
  C1, as stated, asks that exactly one of \<open>picW = maxW\<close> and \<open>picH = maxH\<close> holds.
  When the box has the aspect ratio of the picture the width branch is taken and the
  computed height equals the box height too: a 1 by 1 picture in a 2 by 2 box comes back
  as 2 by 2, so both equalities hold.
\<close>

theorem scalePicture_exactly_one_counterexample:
  "scalePicture 2 2 1 1 = Inr (2, 2, False) \<and> \<not> (((2::rat) = 2) \<noteq> ((2::rat) = 2))"
  by (simp add: scalePicture_def)

text \<open>
  C1 (amended): for positive box bounds and positive natural dimensions the call returns,
  the result fits the box, at least one of the two dimensions touches the box, the aspect
  ratio is kept, and the result is \<open>(maxH\<cdot>w/h, maxH)\<close> when \<open>maxW\<cdot>h/w > maxH\<close> and
  \<open>(maxW, maxW\<cdot>h/w)\<close> otherwise.
\<close>

theorem scalePicture_fits_box:
  assumes "0 < maxW" and "0 < maxH" and "0 < w" and "0 < h"
  shows "\<exists>picW picH byHeight.
           scalePicture maxW maxH w h = Inr (picW, picH, byHeight)
         \<and> picW \<le> maxW \<and> picH \<le> maxH
         \<and> (picW = maxW \<or> picH = maxH)
         \<and> picW * h = picH * w
         \<and> (if maxW * h / w > maxH
              then picW = maxH * w / h \<and> picH = maxH \<and> byHeight
              else picW = maxW \<and> picH = maxW * h / w \<and> \<not> byHeight)"
proof (cases "maxW * h / w > maxH")
  case True
  from True assms have "maxH * w < maxW * h"
    by (simp add: pos_less_divide_eq)
  then have "maxH * w / h < maxW"
    using assms by (simp add: pos_divide_less_eq)
  with True assms show ?thesis
    by (auto simp add: scalePicture_def)
next
  case False
  with assms show ?thesis
    by (auto simp add: scalePicture_def)
qed

theorem scalePicture_fits_box_witness:
  "scalePicture 300 100 4 2 = Inr (200, 100, True) \<and> scalePicture 300 200 4 2 = Inr (300, 150, False)"
  using scalePicture_fits_box [of 300 100 4 2] scalePicture_fits_box [of 300 200 4 2]
  by (simp add: scalePicture_def)

subsection \<open>C3: content-area split\<close>


lemma py_int_of_int: "py_int (of_int e) = e"
  by (simp add: py_int_def)

lemma py_int_exact: "w \<noteq> 0 \<Longrightarrow> py_int (of_int (e * w) / of_int w) = e"
  by (simp add: py_int_of_int)









subsection \<open>C8: footnote pagination\<close>










subsection \<open>C10: list block heights\<close>



subsection \<open>C4: table-of-contents wrap grid\<close>

text \<open>
  The placement loop in closed form: with \<open>E\<close> entries per row, the entry drawn \<open>i\<close>
  steps after column \<open>k\<close> of a row stands in column \<open>(k + i) mod E\<close>, \<open>(k + i) div E\<close>
  rows further down.  So the rows drawn hold \<open>E\<close> entries each, the last one the rest.
\<close>

lemma tocPlace_grid:
  assumes E: "0 < E"
  shows "k < E \<Longrightarrow>
    tocPlace w h g rg left (int E) entries (left + of_nat k * (w + of_int g)) y (int k + 1) =
    map (\<lambda>i. (entries ! i,
               left + of_nat ((k + i) mod E) * (w + of_int g),
               y + of_nat ((k + i) div E) * (of_int rg + of_int h)))
      [0..<length entries]"
proof (induction entries arbitrary: k y)
  case Nil
  then show ?case by simp
next
  case (Cons e es)
  have shift: "map f [0..<length (e # es)] = f 0 # map (\<lambda>i. f (Suc i)) [0..<length es]" for f :: "nat \<Rightarrow> 'a \<times> rat \<times> rat"
    by (simp add: upt_conv_Cons map_Suc_upt [symmetric] del: upt_Suc)
  show ?case
  proof (cases "Suc k = E")
    case True
    then have wrap: "int k + 1 + 1 = int E + 1" by simp
    have idx: "(k + Suc i) mod E = (0 + i) mod E" "(k + Suc i) div E = Suc ((0 + i) div E)" for i
    proof -
      have e: "k + Suc i = E + i" using True by simp
      show "(k + Suc i) mod E = (0 + i) mod E" unfolding e by simp
      show "(k + Suc i) div E = Suc ((0 + i) div E)" unfolding e using E by simp
    qed
    have first: "k mod E = k" "k div E = 0" using Cons.prems by simp_all
    from Cons.IH [of 0 "y + of_int rg + of_int h"] E
    have IH: "tocPlace w h g rg left (int E) es left (y + of_int rg + of_int h) 1 =
      map (\<lambda>i. (es ! i, left + of_nat ((0 + i) mod E) * (w + of_int g),
                 y + of_int rg + of_int h + of_nat ((0 + i) div E) * (of_int rg + of_int h)))
        [0..<length es]"
      by simp
    show ?thesis
      unfolding shift
      apply (subst tocPlace.simps)
      apply (simp only: Let_def wrap if_True IH idx first add_0_right)
      apply (simp add: algebra_simps del: upt_Suc)
      done
  next
    case False
    with Cons.prems have k1: "Suc k < E" by simp
    then have nowrap: "int k + 1 + 1 \<noteq> int E + 1" by simp
    have cur: "left + of_nat k * (w + of_int g) + w + of_int g = left + of_nat (Suc k) * (w + of_int g)"
      by (simp add: algebra_simps)
    have first: "k mod E = k" "k div E = 0" using Cons.prems by simp_all
    from Cons.IH [OF k1, of y]
    have IH: "tocPlace w h g rg left (int E) es (left + of_nat (Suc k) * (w + of_int g)) y
                (int k + 1 + 1) =
      map (\<lambda>i. (es ! i, left + of_nat ((Suc k + i) mod E) * (w + of_int g),
                 y + of_nat ((Suc k + i) div E) * (of_int rg + of_int h)))
        [0..<length es]"
      by (simp add: add.commute add.left_commute)
    show ?thesis
      unfolding shift
      apply (subst tocPlace.simps)
      apply (simp only: Let_def nowrap if_False cur IH)
      apply (simp add: first del: upt_Suc)
      done
  qed
qed


subsection \<open>C6: graphics grid or ruled table\<close>








subsection \<open>C5: the dash row of a ruled table\<close>






















subsection \<open>C7: bullets on a card\<close>













text \<open>
  The hypothesis \<open>card_inv\<close> of the theorem holds in every state the pass reaches: it
  holds before the first line and every line keeps it.
\<close>

lemma card_inv_frame:
  assumes "card_inv st" and "inCard st' = inCard st" and "cards_v st' = cards_v st"
    and "cardBullets st' = cardBullets st"
  shows "card_inv st'"
  using assms by (simp add: card_inv_def)



























subsection \<open>C2: the sequence of an emitted slide\<close>



subsection \<open>C9: missing media in a graphics grid\<close>

text \<open>
  When the dimension pass meets a media item of width \<open>-1\<close>, and no lookup raises, the
  block is skipped: the call returns the shapes of the slide unchanged, with a report.
\<close>

lemma checkCells_missing:
  assumes "list_all (\<lambda>c. \<exists>d. cellDimensions env (snd (snd c)) = Inr d) cells"
    and "list_ex (\<lambda>c. \<exists>v h. cellDimensions env (snd (snd c)) = Inr (Some (v, - 1, h))) cells"
  shows "\<exists>report. checkCells env rows cells = Inr (Inl report)"
  using assms
proof (induction cells)
  case Nil
  then show ?case by simp
next
  case (Cons c cells)
  obtain a b pm where c: "c = (a, b, pm)" by (cases c) auto
  from Cons.prems(1) obtain d where d: "cellDimensions env pm = Inr d"
    and rest: "list_all (\<lambda>c. \<exists>d. cellDimensions env (snd (snd c)) = Inr d) cells"
    by (auto simp add: c)
  show ?case
  proof (cases d)
    case None
    with Cons.prems(2) d c
    have "list_ex (\<lambda>c. \<exists>v h. cellDimensions env (snd (snd c)) = Inr (Some (v, - 1, h))) cells"
      by simp
    from Cons.IH [OF rest this] d None c show ?thesis by simp
  next
    case (Some vwh)
    obtain v w h where vwh: "vwh = (v, w, h)" by (cases vwh) auto
    show ?thesis
    proof (cases "w = - 1")
      case True
      with d Some vwh c show ?thesis by simp
    next
      case False
      with Cons.prems(2) d Some vwh c
      have "list_ex (\<lambda>c. \<exists>v h. cellDimensions env (snd (snd c)) = Inr (Some (v, - 1, h))) cells"
        by simp
      from Cons.IH [OF rest this] obtain report
        where "checkCells env rows cells = Inr (Inl report)" by blast
      with d Some vwh c False show ?thesis by simp
    qed
  qed
qed

lemma createTableBlock_skips:
  assumes "classifyTable env tblRows = Inr g" and "isGraphicsGrid g"
    and "list_all (\<lambda>c. \<exists>d. cellDimensions env (snd (snd c)) = Inr d) (gridCells g)"
    and "list_ex (\<lambda>c. \<exists>v h. cellDimensions env (snd (snd c)) = Inr (Some (v, - 1, h)))
           (gridCells g)"
  shows "\<exists>report. createTableBlock env r marginBase tableMargin slideShapes tblRows =
           Inr (slideShapes, Some report)"
proof -
  from checkCells_missing [OF assms(3,4), of "gridRows g"]
  obtain report where "checkCells env (gridRows g) (gridCells g) = Inr (Inl report)" by blast
  with assms(1,2) show ?thesis by (simp add: createTableBlock_def)
qed


end
